theory Spec2Isabelle
  imports Main
begin

section \<open>Python strings\<close>

text \<open>
  A Python \<open>str\<close> is modelled as a \<open>string\<close> in which every \<open>char\<close> stands for
  one code point below 256. On these code points the predicates below agree with
  \<open>str.isspace\<close>, \<open>str.lower\<close> and the regular-expression class \<open>\d\<close>.
\<close>

definition isspace :: "char \<Rightarrow> bool" where
  "isspace c = (let n = (of_char c :: nat) in
     (9 \<le> n \<and> n \<le> 13) \<or> (28 \<le> n \<and> n \<le> 32) \<or> n = 133 \<or> n = 160)"

definition strip :: "string \<Rightarrow> string" where
  "strip s = rev (dropWhile isspace (rev (dropWhile isspace s)))"

definition lower_char :: "char \<Rightarrow> char" where
  "lower_char c = (let n = (of_char c :: nat) in
     if (65 \<le> n \<and> n \<le> 90) \<or> (192 \<le> n \<and> n \<le> 222 \<and> n \<noteq> 215)
     then char_of (n + 32) else c)"

definition lower :: "string \<Rightarrow> string" where
  "lower s = map lower_char s"

text \<open>\<open>sub in s\<close> on strings.\<close>

fun str_in :: "string \<Rightarrow> string \<Rightarrow> bool" where
  "str_in sub [] = (sub = [])"
| "str_in sub (c # cs) = (take (length sub) (c # cs) = sub \<or> str_in sub cs)"

definition startswith :: "string \<Rightarrow> string \<Rightarrow> bool" where
  "startswith s p = (take (length p) s = p)"

definition is_digit :: "char \<Rightarrow> bool" where
  "is_digit c = (let n = (of_char c :: nat) in 48 \<le> n \<and> n \<le> 57)"

text \<open>The character class \<open>[\d.]\<close> of the pattern in \<open>_extract_number\<close>.\<close>

definition is_num_char :: "char \<Rightarrow> bool" where
  "is_num_char c = (is_digit c \<or> c = CHR ''.'')"

text \<open>
  \<open>re.findall(r'[\d.]+', text)\<close>: the maximal runs of digits and dots, from left
  to right.
\<close>

function findall_num :: "string \<Rightarrow> string list" where
  "findall_num s =
     (case dropWhile (\<lambda>c. \<not> is_num_char c) s of
        [] \<Rightarrow> []
      | c # r \<Rightarrow> takeWhile is_num_char (c # r) # findall_num (dropWhile is_num_char r))"
  by pat_completeness auto
termination
proof (relation "measure length")
  show "wf (measure length)" by simp
next
  fix s :: string and c r
  assume h: "dropWhile (\<lambda>c. \<not> is_num_char c) s = c # r"
  have "length (dropWhile is_num_char r) \<le> length r"
    by (rule length_dropWhile_le)
  moreover have "length (c # r) \<le> length s"
    using length_dropWhile_le [of "\<lambda>c. \<not> is_num_char c" s] h by simp
  ultimately show "(dropWhile is_num_char r, s) \<in> measure length"
    by simp
qed

declare findall_num.simps [simp del]

section \<open>Python floats\<close>

text \<open>
  A finite IEEE 754 double is \<open>Finite m e\<close>, standing for \<open>m * 2 ^ e\<close>; the mantissa
  carries the sign. \<open>Infinite neg\<close> is the infinity of that sign.
\<close>

datatype pyfloat = Finite int int | Infinite bool

datatype exn = ValueError | OverflowError | RequestException | HTTPError | ParserRejectedMarkup

fun bit_length :: "int \<Rightarrow> nat" where
  "bit_length n = (if n \<le> 0 then 0 else Suc (bit_length (n div 2)))"

declare bit_length.simps [simp del]

text \<open>The integer nearest to \<open>n / d\<close>, a tie going to the even one (\<open>0 \<le> n\<close>, \<open>0 < d\<close>).\<close>

definition round_half_even :: "int \<Rightarrow> int \<Rightarrow> int" where
  "round_half_even n d =
     (let q = n div d; r = n mod d in
      if 2 * r < d then q
      else if d < 2 * r then q + 1
      else if even q then q else q + 1)"

text \<open>The exponent \<open>k\<close> with \<open>2 ^ k \<le> n / d < 2 ^ (k + 1)\<close>, for positive \<open>n\<close> and \<open>d\<close>.\<close>

definition floor_log2 :: "int \<Rightarrow> int \<Rightarrow> int" where
  "floor_log2 n d =
     (let k = int (bit_length n) - int (bit_length d) in
      if (if 0 \<le> k then d * 2 ^ nat k \<le> n else d \<le> n * 2 ^ nat (- k)) then k else k - 1)"

text \<open>
  Rounding of the non-negative rational \<open>n / d\<close> to the nearest double (53 bits of
  mantissa, least exponent \<open>-1074\<close>, ties to even): the mantissa and the exponent, or
  \<open>None\<close> when the rounded value exceeds the largest double.
\<close>

definition round_double :: "int \<Rightarrow> int \<Rightarrow> (int \<times> int) option" where
  "round_double n d =
     (if n = 0 then Some (0, 0)
      else
        let e = max (floor_log2 n d - 52) (- 1074);
            m = (if 0 \<le> e then round_half_even n (d * 2 ^ nat e)
                 else round_half_even (n * 2 ^ nat (- e)) d)
        in if 971 < e \<or> (e = 971 \<and> 2 ^ 53 \<le> m) then None else Some (m, e))"

text \<open>The double nearest to \<open>n / d\<close>, for any integer \<open>n\<close> and positive \<open>d\<close>.\<close>

definition to_double :: "int \<Rightarrow> int \<Rightarrow> pyfloat" where
  "to_double n d =
     (case round_double \<bar>n\<bar> d of
        None \<Rightarrow> Infinite (n < 0)
      | Some (m, e) \<Rightarrow> Finite (if n < 0 then - m else m) e)"

text \<open>\<open>x * k\<close> for a float \<open>x\<close> and an integer \<open>k\<close> that is itself a double.\<close>

definition float_mul :: "pyfloat \<Rightarrow> int \<Rightarrow> pyfloat" where
  "float_mul x k =
     (case x of
        Infinite neg \<Rightarrow> Infinite (neg \<noteq> (k < 0))
      | Finite m e \<Rightarrow>
          if 0 \<le> e then to_double (m * k * 2 ^ nat e) 1
          else to_double (m * k) (2 ^ nat (- e)))"

text \<open>\<open>int(x)\<close>: truncation towards zero; an infinity raises \<open>OverflowError\<close>.\<close>

definition int_of_float :: "pyfloat \<Rightarrow> exn + int" where
  "int_of_float x =
     (case x of
        Infinite neg \<Rightarrow> Inl OverflowError
      | Finite m e \<Rightarrow>
          if 0 \<le> e then Inr (m * 2 ^ nat e)
          else if 0 \<le> m then Inr (m div 2 ^ nat (- e))
          else Inr (- ((- m) div 2 ^ nat (- e))))"

definition digit_val :: "char \<Rightarrow> int" where
  "digit_val c = of_char c - 48"

definition decimal :: "string \<Rightarrow> int" where
  "decimal s = foldl (\<lambda>a c. 10 * a + digit_val c) 0 s"

text \<open>
  \<open>float(s)\<close> on the strings the pattern \<open>[\d.]+\<close> can deliver: digits with at most
  one point and at least one digit are a number, everything else raises
  \<open>ValueError\<close>.
\<close>

definition float_of_str :: "string \<Rightarrow> exn + pyfloat" where
  "float_of_str s =
     (let ip = takeWhile is_digit s in
      case dropWhile is_digit s of
        [] \<Rightarrow> if ip = [] then Inl ValueError else Inr (to_double (decimal ip) 1)
      | c # fp \<Rightarrow>
          if c = CHR ''.'' \<and> list_all is_digit fp \<and> ip @ fp \<noteq> []
          then Inr (to_double (decimal (ip @ fp)) (10 ^ length fp))
          else Inl ValueError)"

section \<open>NumberNormalizer\<close>

text \<open>The body of the \<open>try\<close> block of \<open>_extract_number\<close>; \<open>None\<close> is falling out of it.\<close>

definition extract_number_body :: "string \<Rightarrow> exn + int option" where
  "extract_number_body text =
     (case findall_num text of
        [] \<Rightarrow> Inr None
      | n0 # _ \<Rightarrow>
          (case float_of_str n0 of
             Inl e \<Rightarrow> Inl e
           | Inr num \<Rightarrow>
               (case int_of_float
                       (if CHR ''k'' \<in> set (lower text) then float_mul num 1000
                        else if CHR ''m'' \<in> set (lower text) then float_mul num 1000000
                        else num) of
                  Inl e \<Rightarrow> Inl e
                | Inr i \<Rightarrow> Inr (Some i))))"

text \<open>\<open>_extract_number\<close>: the bare \<open>except\<close> passes, and the function then returns 0.\<close>

definition extract_number :: "string \<Rightarrow> exn + int" where
  "extract_number text =
     (case extract_number_body text of
        Inl e \<Rightarrow> Inr 0
      | Inr None \<Rightarrow> Inr 0
      | Inr (Some i) \<Rightarrow> Inr i)"

section \<open>The parsed page\<close>

text \<open>
  The tree that \<open>BeautifulSoup(response.text, 'html.parser')\<close> builds: a node is
  a string or a tag with its name, its attribute dictionary (an association list,
  read with \<open>map_of\<close>) and its contents. Comments and the contents of script
  and style elements, which \<open>.text\<close> skips, are not part of the tree.
\<close>

datatype node = Text string | Tag string "(string \<times> string) list" "node list"

text \<open>\<open>tag.descendants\<close>: every node below the tag, in document order.\<close>

fun descendants :: "node \<Rightarrow> node list" where
  "descendants (Text s) = []"
| "descendants (Tag n a cs) = concat (map (\<lambda>c. c # descendants c) cs)"

text \<open>\<open>tag.text\<close>: the strings below the tag, concatenated.\<close>

fun get_text :: "node \<Rightarrow> string" where
  "get_text (Text s) = s"
| "get_text (Tag n a cs) = concat (map get_text cs)"

text \<open>\<open>tag.get(key)\<close>: the attribute's value, or \<open>None\<close>.\<close>

fun tag_get :: "node \<Rightarrow> string \<Rightarrow> string option" where
  "tag_get (Text s) k = None"
| "tag_get (Tag n a cs) k = map_of a k"

text \<open>The whitespace-separated tokens of an attribute value, as kept for \<open>class\<close>.\<close>

definition split_ws :: "string \<Rightarrow> string list" where
  "split_ws s =
     filter (\<lambda>w. w \<noteq> [])
       (foldr (\<lambda>c acc. if isspace c then [] # acc
                        else (case acc of [] \<Rightarrow> [[c]] | w # ws \<Rightarrow> (c # w) # ws)) s [])"

text \<open>
  The search criteria of \<open>find\<close> and \<open>find_all\<close>. A name, or a list of names,
  matches a tag of one of these names. A list given for \<open>class_\<close> matches a tag
  one of whose class tokens is in the list. \<open>{'data-href': True}\<close> matches a tag
  that has the attribute.
\<close>

fun name_matches :: "string list \<Rightarrow> node \<Rightarrow> bool" where
  "name_matches names (Text s) = False"
| "name_matches names (Tag n a cs) = (n \<in> set names)"

definition class_matches :: "string list \<Rightarrow> node \<Rightarrow> bool" where
  "class_matches cands el =
     (case tag_get el ''class'' of
        None \<Rightarrow> False
      | Some v \<Rightarrow> list_ex (\<lambda>t. t \<in> set cands) (split_ws v))"

definition has_attr :: "string \<Rightarrow> node \<Rightarrow> bool" where
  "has_attr k el = (tag_get el k \<noteq> None)"

definition find_all :: "node \<Rightarrow> (node \<Rightarrow> bool) \<Rightarrow> node list" where
  "find_all el crit = filter crit (descendants el)"

text \<open>\<open>find\<close> is \<open>find_all\<close> with a limit of one.\<close>

definition find_el :: "node \<Rightarrow> (node \<Rightarrow> bool) \<Rightarrow> node option" where
  "find_el el crit = (case find_all el crit of [] \<Rightarrow> None | x # _ \<Rightarrow> Some x)"

section \<open>Records\<close>

text \<open>
  The dictionary \<open>_extract_broadcaster_data\<close> returns. A value that may be
  Python's \<open>None\<close> is an option; the key \<open>profile_url\<close> is set only when a link
  element was found, which the outer option of that field records.
\<close>

record broadcaster =
  username :: string
  viewers :: int
  profile_image :: "string option"
  title :: string
  profile_url :: "string option option"
  timestamp :: string
  is_live :: bool

text \<open>
  The dictionary \<open>get_broadcaster_profile\<close> returns; the keys \<open>username\<close>,
  \<open>profile_image\<close> and \<open>timestamp\<close> carry a prefix here.
\<close>

record profile =
  p_username :: string
  followers :: int
  following :: int
  total_streams :: int
  bio :: string
  p_profile_image :: "string option"
  is_verified :: bool
  last_seen :: string
  p_timestamp :: string

section \<open>RecordExtractor, directory-card path\<close>

definition username_crit :: "node \<Rightarrow> bool" where
  "username_crit x =
     (name_matches [''span'', ''div'', ''h3''] x \<and>
      class_matches [''username'', ''broadcaster-name'', ''name''] x)"

definition viewers_crit :: "node \<Rightarrow> bool" where
  "viewers_crit x =
     (name_matches [''span'', ''div''] x \<and>
      class_matches [''viewers'', ''viewer-count'', ''live-count''] x)"

definition title_crit :: "node \<Rightarrow> bool" where
  "title_crit x =
     (name_matches [''span'', ''div'', ''p''] x \<and>
      class_matches [''title'', ''stream-title'', ''description''] x)"

definition data_href_crit :: "node \<Rightarrow> bool" where
  "data_href_crit x = (name_matches [''div'', ''span''] x \<and> has_attr ''data-href'' x)"

text \<open>\<open>a or b\<close> on values that are a string or \<open>None\<close>: both \<open>None\<close> and \<open>""\<close> are falsy.\<close>

definition str_or :: "string option \<Rightarrow> string option \<Rightarrow> string option" where
  "str_or a b = (if a = None \<or> a = Some [] then b else a)"

text \<open>
  The value stored under \<open>profile_url\<close> for the link element found:
  \<open>f"https://www.tango.me{href}" if href and href.startswith('/') else href\<close>.
\<close>

definition profile_url_of :: "node \<Rightarrow> string option" where
  "profile_url_of link_elem =
     (let href = str_or (tag_get link_elem ''href'') (tag_get link_elem ''data-href'') in
      case href of
        None \<Rightarrow> href
      | Some h \<Rightarrow> if h \<noteq> [] \<and> startswith h ''/'' then Some (''https://www.tango.me'' @ h) else href)"

text \<open>
  \<open>element.find('a') or element.find(['div', 'span'], {'data-href': True})\<close>; a tag
  found is truthy.
\<close>

definition find_link :: "node \<Rightarrow> node option" where
  "find_link element =
     (case find_el element (name_matches [''a'']) of
        Some e \<Rightarrow> Some e
      | None \<Rightarrow> find_el element data_href_crit)"

text \<open>
  The body of the \<open>try\<close> block of \<open>_extract_broadcaster_data\<close>; \<open>now\<close> is what
  \<open>datetime.now().isoformat()\<close> returns in this call.
\<close>

definition extract_broadcaster_data_body :: "string \<Rightarrow> node \<Rightarrow> exn + broadcaster option" where
  "extract_broadcaster_data_body now element =
     (let username_elem = find_el element username_crit;
          data_username = (case username_elem of Some e \<Rightarrow> strip (get_text e) | None \<Rightarrow> ''Unknown'');
          viewers_elem = find_el element viewers_crit
      in case extract_number (case viewers_elem of Some e \<Rightarrow> get_text e | None \<Rightarrow> ''0'') of
           Inl e \<Rightarrow> Inl e
         | Inr data_viewers \<Rightarrow>
             (let img_elem = find_el element (name_matches [''img'']);
                  data_profile_image = (case img_elem of Some e \<Rightarrow> tag_get e ''src'' | None \<Rightarrow> None);
                  title_elem = find_el element title_crit;
                  data_title = (case title_elem of Some e \<Rightarrow> strip (get_text e) | None \<Rightarrow> []);
                  link_elem = find_link element;
                  data = \<lparr> username = data_username,
                           viewers = data_viewers,
                           profile_image = data_profile_image,
                           title = data_title,
                           profile_url = map_option profile_url_of link_elem,
                           timestamp = now,
                           is_live = True \<rparr>
              in Inr (if username data \<noteq> ''Unknown'' then Some data else None)))"

text \<open>\<open>_extract_broadcaster_data\<close>: any exception of the body is logged and \<open>None\<close> returned.\<close>

definition extract_broadcaster_data :: "string \<Rightarrow> node \<Rightarrow> exn + broadcaster option" where
  "extract_broadcaster_data now element =
     (case extract_broadcaster_data_body now element of
        Inl e \<Rightarrow> Inr None
      | Inr r \<Rightarrow> Inr r)"

section \<open>PageFetcher\<close>

record response =
  status_code :: nat
  resp_text :: string

text \<open>
  What the scraper reads from outside: \<open>session_get url\<close> is
  \<open>self.session.get(url, timeout=10)\<close>, which returns a response or raises;
  \<open>html_parser\<close> is the \<open>BeautifulSoup\<close> constructor, which returns the root of
  the tree or raises; \<open>clock k\<close> is what the \<open>k\<close>-th call of
  \<open>datetime.now().isoformat()\<close> within one scan returns.
\<close>

record world =
  session_get :: "string \<Rightarrow> exn + response"
  html_parser :: "string \<Rightarrow> exn + node"
  clock :: "nat \<Rightarrow> string"

definition raise_for_status :: "response \<Rightarrow> exn + unit" where
  "raise_for_status r =
     (if 400 \<le> status_code r \<and> status_code r < 600 then Inl HTTPError else Inr ())"

text \<open>The first three statements of both scans: fetch, check the status, parse.\<close>

definition fetch_soup :: "world \<Rightarrow> string \<Rightarrow> exn + node" where
  "fetch_soup w url =
     (case session_get w url of
        Inl e \<Rightarrow> Inl e
      | Inr r \<Rightarrow>
          (case raise_for_status r of
             Inl e \<Rightarrow> Inl e
           | Inr u \<Rightarrow> html_parser w (resp_text r)))"

section \<open>DirectoryScanner\<close>

definition card_crit :: "node \<Rightarrow> bool" where
  "card_crit x =
     (name_matches [''div''] x \<and>
      class_matches [''broadcaster-card'', ''live-stream-card'', ''stream-item''] x)"

text \<open>
  The \<open>for\<close> loop of \<open>get_live_broadcasters\<close>: \<open>k\<close> counts the clock readings
  taken so far, \<open>acc\<close> is the list \<open>broadcasters\<close>. A dictionary returned by the
  extractor is never empty, hence truthy.
\<close>

fun scan_loop :: "(nat \<Rightarrow> string) \<Rightarrow> nat \<Rightarrow> node list \<Rightarrow> broadcaster list \<Rightarrow> exn + broadcaster list" where
  "scan_loop clk k [] acc = Inr acc"
| "scan_loop clk k (element # rest) acc =
     (case extract_broadcaster_data (clk k) element of
        Inl e \<Rightarrow> Inl e
      | Inr None \<Rightarrow> scan_loop clk (Suc k) rest acc
      | Inr (Some d) \<Rightarrow> scan_loop clk (Suc k) rest (acc @ [d]))"

definition get_live_broadcasters_body :: "world \<Rightarrow> exn + broadcaster list" where
  "get_live_broadcasters_body w =
     (case fetch_soup w ''https://www.tango.me/live/nearby'' of
        Inl e \<Rightarrow> Inl e
      | Inr soup \<Rightarrow> scan_loop (clock w) 0 (find_all soup card_crit) [])"

text \<open>\<open>get_live_broadcasters\<close>: any exception of the body is logged and \<open>[]\<close> returned.\<close>

definition get_live_broadcasters :: "world \<Rightarrow> exn + broadcaster list" where
  "get_live_broadcasters w =
     (case get_live_broadcasters_body w of
        Inl e \<Rightarrow> Inr []
      | Inr bs \<Rightarrow> Inr bs)"

section \<open>ProfileScanner\<close>

definition stat_crit :: "node \<Rightarrow> bool" where
  "stat_crit x =
     (name_matches [''span'', ''div''] x \<and> class_matches [''stat'', ''count'', ''number''] x)"

definition bio_crit :: "node \<Rightarrow> bool" where
  "bio_crit x =
     (name_matches [''div'', ''p''] x \<and> class_matches [''bio'', ''description'', ''about''] x)"

definition avatar_crit :: "node \<Rightarrow> bool" where
  "avatar_crit x =
     (name_matches [''img''] x \<and> class_matches [''profile-pic'', ''avatar'', ''profile-image''] x)"

text \<open>One round of the loop over \<open>stats_elements\<close>.\<close>

definition stat_step :: "profile \<Rightarrow> node \<Rightarrow> exn + profile" where
  "stat_step profile_data stat =
     (let t = lower (get_text stat) in
      if str_in ''follower'' t then
        (case extract_number (get_text stat) of
           Inl e \<Rightarrow> Inl e
         | Inr n \<Rightarrow> Inr (profile_data\<lparr>followers := n\<rparr>))
      else if str_in ''following'' t then
        (case extract_number (get_text stat) of
           Inl e \<Rightarrow> Inl e
         | Inr n \<Rightarrow> Inr (profile_data\<lparr>following := n\<rparr>))
      else Inr profile_data)"

fun stat_loop :: "profile \<Rightarrow> node list \<Rightarrow> exn + profile" where
  "stat_loop profile_data [] = Inr profile_data"
| "stat_loop profile_data (stat # rest) =
     (case stat_step profile_data stat of
        Inl e \<Rightarrow> Inl e
      | Inr pd \<Rightarrow> stat_loop pd rest)"

text \<open>The statements of \<open>get_broadcaster_profile\<close> that follow the parsing of the page.\<close>

definition extract_profile :: "node \<Rightarrow> string \<Rightarrow> string \<Rightarrow> exn + profile" where
  "extract_profile soup uname now =
     (let profile_data = \<lparr> p_username = uname,
                            followers = 0,
                            following = 0,
                            total_streams = 0,
                            bio = [],
                            p_profile_image = Some [],
                            is_verified = False,
                            last_seen = [],
                            p_timestamp = now \<rparr>
      in case stat_loop profile_data (find_all soup stat_crit) of
           Inl e \<Rightarrow> Inl e
         | Inr pd1 \<Rightarrow>
             (let pd2 = (case find_el soup bio_crit of
                           Some bio_elem \<Rightarrow> pd1\<lparr>bio := strip (get_text bio_elem)\<rparr>
                         | None \<Rightarrow> pd1);
                  pd3 = (case find_el soup avatar_crit of
                           Some img_elem \<Rightarrow> pd2\<lparr>p_profile_image := tag_get img_elem ''src''\<rparr>
                         | None \<Rightarrow> pd2)
              in Inr pd3))"

definition get_broadcaster_profile_body :: "world \<Rightarrow> string \<Rightarrow> exn + profile option" where
  "get_broadcaster_profile_body w uname =
     (case fetch_soup w (''https://www.tango.me/'' @ uname) of
        Inl e \<Rightarrow> Inl e
      | Inr soup \<Rightarrow>
          (case extract_profile soup uname (clock w 0) of
             Inl e \<Rightarrow> Inl e
           | Inr pd \<Rightarrow> Inr (Some pd)))"

text \<open>\<open>get_broadcaster_profile\<close>: any exception of the body is logged and \<open>None\<close> returned.\<close>

definition get_broadcaster_profile :: "world \<Rightarrow> string \<Rightarrow> exn + profile option" where
  "get_broadcaster_profile w uname =
     (case get_broadcaster_profile_body w uname of
        Inl e \<Rightarrow> Inr None
      | Inr r \<Rightarrow> Inr r)"

section \<open>Auxiliary predicates\<close>

text \<open>
  The guard of \<open>_extract_broadcaster_data\<close> on a card: an element matches the
  username criteria and its stripped text is not the sentinel \<open>"Unknown"\<close>. An
  empty text passes.
\<close>

definition username_kept :: "node \<Rightarrow> bool" where
  "username_kept element =
     (case find_el element username_crit of
        None \<Rightarrow> False
      | Some e \<Rightarrow> strip (get_text e) \<noteq> ''Unknown'')"

text \<open>
  A resolvable username in the words of the specification: the username resolves
  to a string that is neither empty nor the sentinel.
\<close>

definition username_resolvable :: "node \<Rightarrow> bool" where
  "username_resolvable element =
     (case find_el element username_crit of
        None \<Rightarrow> False
      | Some e \<Rightarrow> strip (get_text e) \<noteq> [] \<and> strip (get_text e) \<noteq> ''Unknown'')"

text \<open>
  The integer \<open>_extract_number\<close> returns; it never raises (lemma
  \<open>extract_number_normalize\<close>).
\<close>

definition normalize :: "string \<Rightarrow> int" where
  "normalize t = (case extract_number t of Inr n \<Rightarrow> n | Inl e \<Rightarrow> 0)"

text \<open>The two tests of the loop over the stat elements.\<close>

definition says_follower :: "node \<Rightarrow> bool" where
  "says_follower stat = str_in ''follower'' (lower (get_text stat))"

definition says_following :: "node \<Rightarrow> bool" where
  "says_following stat = str_in ''following'' (lower (get_text stat))"

text \<open>
  What one stat element does to the pair of \<open>followers\<close> and \<open>following\<close>: the
  \<open>follower\<close> test comes first, the \<open>following\<close> test is tried only when it fails.
\<close>

definition apply_stat :: "int \<times> int \<Rightarrow> node \<Rightarrow> int \<times> int" where
  "apply_stat ff stat =
     (if says_follower stat then (normalize (get_text stat), snd ff)
      else if says_following stat then (fst ff, normalize (get_text stat))
      else ff)"


text \<open>A float that is not negative.\<close>

fun float_nonneg :: "pyfloat \<Rightarrow> bool" where
  "float_nonneg (Finite m e) = (0 \<le> m)"
| "float_nonneg (Infinite neg) = (\<not> neg)"

section \<open>Example pages\<close>

definition card_alice :: node where
  "card_alice =
     Tag ''div'' [(''class'', ''broadcaster-card featured'')]
       [Tag ''span'' [(''class'', ''username'')] [Text '' alice ''],
        Tag ''span'' [(''class'', ''viewers'')] [Text ''1.2K viewers''],
        Tag ''img'' [(''src'', ''https://cdn.example/a.png'')] [],
        Tag ''p'' [(''class'', ''title'')] [Text ''Hello''],
        Tag ''a'' [(''href'', ''/alice'')] [Text ''watch'']]"

definition card_anonymous :: node where
  "card_anonymous =
     Tag ''div'' [(''class'', ''stream-item'')]
       [Tag ''span'' [(''class'', ''viewers'')] [Text ''7''],
        Tag ''a'' [(''href'', ''/nobody'')] []]"

definition card_blank :: node where
  "card_blank =
     Tag ''div'' [(''class'', ''stream-item'')]
       [Tag ''h3'' [(''class'', ''name'')] [Text ''  '']]"

definition card_bob :: node where
  "card_bob =
     Tag ''div'' [(''class'', ''live-stream-card'')]
       [Tag ''h3'' [(''class'', ''name'')] [Text ''bob''],
        Tag ''div'' [(''data-href'', ''https://example.org/bob'')] []]"

definition listing_page :: node where
  "listing_page =
     Tag ''[document]'' []
       [Tag ''html'' []
          [Tag ''body'' [] [card_alice, Text '' '', card_anonymous, card_bob]]]"

definition bob_page :: node where
  "bob_page =
     Tag ''[document]'' []
       [Tag ''div'' [(''class'', ''profile'')]
          [Tag ''span'' [(''class'', ''stat'')] [Text ''1.5K followers''],
           Tag ''span'' [(''class'', ''stat'')] [Text ''300 following''],
           Tag ''p'' [(''class'', ''bio'')] [Text '' hi there ''],
           Tag ''img'' [(''class'', ''avatar''), (''src'', ''https://cdn.example/bob.png'')] []]]"

definition carol_page :: node where
  "carol_page =
     Tag ''[document]'' []
       [Tag ''div'' [(''class'', ''count'')] [Text ''10 followers, 20 following'']]"

definition dave_page :: node where
  "dave_page =
     Tag ''[document]'' []
       [Tag ''img'' [(''class'', ''avatar''), (''data-src'', ''https://cdn.example/dave.png'')] []]"

text \<open>
  A site that serves the listing, three profiles and one page the parser rejects,
  and answers 404 for every other address.
\<close>

definition example_world :: world where
  "example_world =
     \<lparr> session_get = (\<lambda>url.
          if url = ''https://www.tango.me/live/nearby'' then Inr \<lparr>status_code = 200, resp_text = ''listing''\<rparr>
          else if url = ''https://www.tango.me/bob'' then Inr \<lparr>status_code = 200, resp_text = ''bob''\<rparr>
          else if url = ''https://www.tango.me/carol'' then Inr \<lparr>status_code = 200, resp_text = ''carol''\<rparr>
          else if url = ''https://www.tango.me/dave'' then Inr \<lparr>status_code = 200, resp_text = ''dave''\<rparr>
          else if url = ''https://www.tango.me/mallory'' then Inr \<lparr>status_code = 200, resp_text = ''<<<''\<rparr>
          else Inr \<lparr>status_code = 404, resp_text = []\<rparr>),
        html_parser = (\<lambda>s.
          if s = ''listing'' then Inr listing_page
          else if s = ''bob'' then Inr bob_page
          else if s = ''carol'' then Inr carol_page
          else if s = ''dave'' then Inr dave_page
          else Inl ParserRejectedMarkup),
        clock = (\<lambda>k. ''T'' @ replicate k (CHR ''+'')) \<rparr>"

text \<open>A site that cannot be reached.\<close>

definition offline_world :: world where
  "offline_world =
     \<lparr> session_get = (\<lambda>url. Inl RequestException),
        html_parser = (\<lambda>s. Inl ParserRejectedMarkup),
        clock = (\<lambda>k. []) \<rparr>"

text \<open>A site that serves one page at every address.\<close>

definition single_page_world :: "node \<Rightarrow> world" where
  "single_page_world page =
     \<lparr> session_get = (\<lambda>url. Inr \<lparr>status_code = 200, resp_text = []\<rparr>),
        html_parser = (\<lambda>s. Inr page),
        clock = (\<lambda>k. ''T'' @ replicate k (CHR ''+'')) \<rparr>"

definition blank_listing :: node where
  "blank_listing = Tag ''[document]'' [] [card_alice, card_blank]"

definition overlap_page :: node where
  "overlap_page =
     Tag ''[document]'' []
       [Tag ''span'' [(''class'', ''stat'')] [Text ''3 following''],
        Tag ''p'' [] [Text ''no stat''],
        Tag ''div'' [(''class'', ''stat'')] [Text ''Followers 5 / Following 8'']]"

definition three_stats_page :: node where
  "three_stats_page =
     Tag ''[document]'' []
       [Tag ''span'' [(''class'', ''stat'')] [Text ''1 follower''],
        Tag ''span'' [(''class'', ''count'')] [Text ''2 following''],
        Tag ''span'' [(''class'', ''number'')] [Text ''3K Followers''],
        Tag ''span'' [(''class'', ''number'')] [Text ''4 posts'']]"

section \<open>Properties of NumberNormalizer\<close>

lemma round_half_even_nonneg: "0 \<le> n \<Longrightarrow> 0 < d \<Longrightarrow> 0 \<le> round_half_even n d"
  by (simp add: round_half_even_def Let_def pos_imp_zdiv_nonneg_iff)

lemma round_double_nonneg:
  assumes "round_double n d = Some (m, e)" "0 \<le> n" "0 < d"
  shows "0 \<le> m"
  using assms
  by (auto simp: round_double_def Let_def round_half_even_nonneg split: if_splits)

lemma to_double_nonneg: "0 \<le> n \<Longrightarrow> 0 < d \<Longrightarrow> float_nonneg (to_double n d)"
  by (auto simp: to_double_def split: option.splits dest: round_double_nonneg)

lemma of_char_int: "(of_char c :: int) = int (of_char c)"
  by (simp add: of_nat_of_char)

lemma digit_val_nonneg: "is_digit c \<Longrightarrow> 0 \<le> digit_val c"
  by (simp add: is_digit_def digit_val_def Let_def of_char_int)

lemma foldl_decimal_nonneg:
  "list_all is_digit s \<Longrightarrow> 0 \<le> a \<Longrightarrow> 0 \<le> foldl (\<lambda>a c. 10 * a + digit_val c) a s"
proof (induction s arbitrary: a)
  case Nil
  then show ?case by simp
next
  case (Cons c s)
  from Cons.prems have "0 \<le> 10 * a + digit_val c"
    using digit_val_nonneg [of c] by simp
  with Cons show ?case by simp
qed

lemma decimal_nonneg: "list_all is_digit s \<Longrightarrow> 0 \<le> decimal s"
  by (simp add: decimal_def foldl_decimal_nonneg)

lemma list_all_takeWhile: "list_all P (takeWhile P s)"
  by (induction s) auto

lemma float_of_str_nonneg: "float_of_str s = Inr x \<Longrightarrow> float_nonneg x"
  by (auto simp: float_of_str_def Let_def to_double_nonneg decimal_nonneg list_all_takeWhile
      split: list.splits if_splits)

lemma float_mul_nonneg: "float_nonneg x \<Longrightarrow> 0 \<le> k \<Longrightarrow> float_nonneg (float_mul x k)"
  by (cases x) (auto simp: float_mul_def to_double_nonneg)

lemma int_of_float_nonneg: "float_nonneg x \<Longrightarrow> int_of_float x = Inr i \<Longrightarrow> 0 \<le> i"
  by (cases x) (auto simp: int_of_float_def pos_imp_zdiv_nonneg_iff split: if_splits)

lemma int_of_float_mul_nonneg:
  "float_nonneg x \<Longrightarrow> 0 \<le> k \<Longrightarrow> int_of_float (float_mul x k) = Inr i \<Longrightarrow> 0 \<le> i"
  using int_of_float_nonneg [OF float_mul_nonneg] by blast

lemma extract_number_body_nonneg:
  assumes "extract_number_body t = Inr (Some i)"
  shows "0 \<le> i"
proof -
  from assms obtain r rs x where
    x: "float_of_str r = Inr x" and
    i: "int_of_float
          (if CHR ''k'' \<in> set (lower t) then float_mul x 1000
           else if CHR ''m'' \<in> set (lower t) then float_mul x 1000000
           else x) = Inr i"
    by (auto simp: extract_number_body_def split: list.splits sum.splits)
  have nn: "float_nonneg x"
    using x by (rule float_of_str_nonneg)
  show ?thesis
  proof (cases "CHR ''k'' \<in> set (lower t)")
    case True
    with i nn show ?thesis
      using int_of_float_mul_nonneg [of x 1000 i] by simp
  next
    case False
    with i nn show ?thesis
      using int_of_float_mul_nonneg [of x 1000000 i] int_of_float_nonneg [of x i]
      by (simp split: if_splits)
  qed
qed

lemma extract_number_returns: "\<exists>n. extract_number t = Inr n \<and> 0 \<le> n"
  unfolding extract_number_def
  by (auto split: sum.splits option.splits dest: extract_number_body_nonneg)

lemma of_char_lower_char:
  "(of_char (lower_char c) :: nat) =
     (if (65 \<le> (of_char c :: nat) \<and> (of_char c :: nat) \<le> 90) \<or>
         (192 \<le> (of_char c :: nat) \<and> (of_char c :: nat) \<le> 222 \<and> (of_char c :: nat) \<noteq> 215)
      then of_char c + 32 else of_char c)"
  by (simp add: lower_char_def Let_def of_char_of)

lemma char_eq_code: "c = d \<longleftrightarrow> (of_char c :: nat) = of_char d"
  by (simp add: of_char_eq_iff)

lemma lower_char_k: "lower_char c = CHR ''k'' \<longleftrightarrow> c = CHR ''k'' \<or> c = CHR ''K''"
  unfolding char_eq_code [of _ "CHR ''k''"] char_eq_code [of _ "CHR ''K''"] of_char_lower_char
  by (simp split: if_splits) arith

lemma lower_char_m: "lower_char c = CHR ''m'' \<longleftrightarrow> c = CHR ''m'' \<or> c = CHR ''M''"
  unfolding char_eq_code [of _ "CHR ''m''"] char_eq_code [of _ "CHR ''M''"] of_char_lower_char
  by (simp split: if_splits) arith

lemma k_in_lower: "CHR ''k'' \<in> set (lower t) \<longleftrightarrow> CHR ''k'' \<in> set t \<or> CHR ''K'' \<in> set t"
proof (induction t)
  case Nil
  show ?case by (simp add: lower_def)
next
  case (Cons c t)
  have "CHR ''k'' = lower_char c \<longleftrightarrow> CHR ''k'' = c \<or> CHR ''K'' = c"
    using lower_char_k [of c] by (simp only: eq_commute [of _ c] eq_commute [of _ "lower_char c"])
  with Cons show ?case
    unfolding lower_def by (simp only: list.map list.set insert_iff) blast
qed

lemma m_in_lower: "CHR ''m'' \<in> set (lower t) \<longleftrightarrow> CHR ''m'' \<in> set t \<or> CHR ''M'' \<in> set t"
proof (induction t)
  case Nil
  show ?case by (simp add: lower_def)
next
  case (Cons c t)
  have "CHR ''m'' = lower_char c \<longleftrightarrow> CHR ''m'' = c \<or> CHR ''M'' = c"
    using lower_char_m [of c] by (simp only: eq_commute [of _ c] eq_commute [of _ "lower_char c"])
  with Cons show ?case
    unfolding lower_def by (simp only: list.map list.set insert_iff) blast
qed

lemma findall_num_minus: "findall_num (CHR ''-'' # t) = findall_num t"
proof -
  have "dropWhile (\<lambda>c. \<not> is_num_char c) (CHR ''-'' # t) = dropWhile (\<lambda>c. \<not> is_num_char c) t"
    by (simp add: is_num_char_def is_digit_def)
  then show ?thesis
    by (simp add: findall_num.simps [of "CHR ''-'' # t"] findall_num.simps [of t])
qed

lemma extract_number_minus: "extract_number (CHR ''-'' # t) = extract_number t"
proof -
  have k: "CHR ''k'' \<in> set (lower (CHR ''-'' # t)) \<longleftrightarrow> CHR ''k'' \<in> set (lower t)"
    by (simp add: k_in_lower)
  have m: "CHR ''m'' \<in> set (lower (CHR ''-'' # t)) \<longleftrightarrow> CHR ''m'' \<in> set (lower t)"
    by (simp add: m_in_lower)
  have "extract_number_body (CHR ''-'' # t) = extract_number_body t"
    unfolding extract_number_body_def findall_num_minus k m by (rule refl)
  then show ?thesis
    by (simp add: extract_number_def)
qed

lemma findall_num_no_run: "findall_num (filter (\<lambda>c. \<not> is_num_char c) t) = []"
proof -
  have h: "dropWhile (\<lambda>c. \<not> is_num_char c) (filter (\<lambda>c. \<not> is_num_char c) t) = []"
    by simp
  show ?thesis
    by (simp only: findall_num.simps [of "filter (\<lambda>c. \<not> is_num_char c) t"] h list.case)
qed

lemma extract_number_no_run: "extract_number (filter (\<lambda>c. \<not> is_num_char c) t) = Inr 0"
  by (simp add: extract_number_def extract_number_body_def findall_num_no_run)

text \<open>
  C4, as the claim states it, fails: the negative-looking input \<open>"-5"\<close> does not
  yield 0. The minus sign is not part of the run \<open>"5"\<close>, and the result is 5.
\<close>

theorem minus_sign_ignored:
  "findall_num ''-5'' = [''5''] \<and> extract_number ''-5'' = Inr 5"
  by code_simp

text \<open>
  C4, amended: \<open>_extract_number\<close> returns for every input string, without an
  exception, and what it returns is a non-negative integer. An input without a
  digit or a point yields 0, and so does the malformed run \<open>"1.2.3"\<close>. A minus
  sign in front of the input changes nothing: a negative-looking input yields what
  the input without the sign yields, never a negative number.
\<close>

theorem extract_number_total_nonneg:
  "(\<exists>n. extract_number t = Inr n \<and> 0 \<le> n)
   \<and> extract_number (filter (\<lambda>c. \<not> is_num_char c) t) = Inr 0
   \<and> extract_number ''1.2.3'' = Inr 0
   \<and> extract_number (CHR ''-'' # t) = extract_number t"
proof -
  have m: "extract_number ''1.2.3'' = Inr 0"
    by code_simp
  show ?thesis
    by (rule conjI [OF extract_number_returns conjI [OF extract_number_no_run
          conjI [OF m extract_number_minus]]])
qed

text \<open>
  C5, as the claim states it, fails: in \<open>"Approx. 1.2K viewers"\<close> the first run
  the pattern matches is the lone point after \<open>Approx\<close>, not the digit run
  \<open>1.2\<close>; \<open>float\<close> rejects it and the result is 0, not 1200.
\<close>

theorem lone_point_run_gives_zero:
  "findall_num ''Approx. 1.2K viewers'' = [''.'', ''1.2'']
   \<and> float_of_str ''.'' = Inl ValueError
   \<and> extract_number ''Approx. 1.2K viewers'' = Inr 0"
  by code_simp

text \<open>
  C5, amended: \<open>_extract_number\<close> takes the first run of digits and points in the
  input, a run that need not hold a digit, and parses it as a float; it multiplies
  the float by 1000 when the input contains \<open>k\<close> or \<open>K\<close>, otherwise by 1000000
  when it contains \<open>m\<close> or \<open>M\<close>, and truncates the product to an integer. When
  there is no run, when \<open>float\<close> rejects the run or when the product is no
  finite number, the result is 0. On \<open>"1.2K"\<close>, \<open>"2M"\<close>, \<open>"500"\<close> and \<open>""\<close>
  the results are 1200, 2000000, 500 and 0, and \<open>k\<close> wins over \<open>m\<close> on
  \<open>"1km"\<close>.
\<close>

theorem extract_number_scaling:
  "extract_number t = Inr
     (case findall_num t of
        [] \<Rightarrow> 0
      | r # rs \<Rightarrow>
          (case float_of_str r of
             Inl e \<Rightarrow> 0
           | Inr x \<Rightarrow>
               (case int_of_float
                       (if CHR ''k'' \<in> set t \<or> CHR ''K'' \<in> set t then float_mul x 1000
                        else if CHR ''m'' \<in> set t \<or> CHR ''M'' \<in> set t then float_mul x 1000000
                        else x) of
                  Inl e \<Rightarrow> 0
                | Inr i \<Rightarrow> i)))
   \<and> extract_number ''1.2K'' = Inr 1200
   \<and> extract_number ''2M'' = Inr 2000000
   \<and> extract_number ''500'' = Inr 500
   \<and> extract_number '''' = Inr 0
   \<and> extract_number ''1km'' = Inr 1000"
proof -
  have general: "extract_number t = Inr
     (case findall_num t of
        [] \<Rightarrow> 0
      | r # rs \<Rightarrow>
          (case float_of_str r of
             Inl e \<Rightarrow> 0
           | Inr x \<Rightarrow>
               (case int_of_float
                       (if CHR ''k'' \<in> set t \<or> CHR ''K'' \<in> set t then float_mul x 1000
                        else if CHR ''m'' \<in> set t \<or> CHR ''M'' \<in> set t then float_mul x 1000000
                        else x) of
                  Inl e \<Rightarrow> 0
                | Inr i \<Rightarrow> i)))"
    unfolding extract_number_def extract_number_body_def k_in_lower m_in_lower
    by (simp split: list.splits sum.splits)
  have e1: "extract_number ''1.2K'' = Inr 1200" by code_simp
  have e2: "extract_number ''2M'' = Inr 2000000" by code_simp
  have e3: "extract_number ''500'' = Inr 500" by code_simp
  have e4: "extract_number '''' = Inr 0" by code_simp
  have e5: "extract_number ''1km'' = Inr 1000" by code_simp
  from general e1 e2 e3 e4 e5 show ?thesis by blast
qed

section \<open>Properties of the directory-card path\<close>

lemma findall_num_runs: "r \<in> set (findall_num t) \<Longrightarrow> r \<noteq> [] \<and> list_all is_num_char r"
proof (induction t rule: findall_num.induct)
  case (1 s)
  show ?case
  proof (cases "dropWhile (\<lambda>c. \<not> is_num_char c) s")
    case Nil
    with "1.prems" show ?thesis by (simp add: findall_num.simps [of s])
  next
    case (Cons c rest)
    have c: "is_num_char c"
      using hd_dropWhile [of "\<lambda>c. \<not> is_num_char c" s] Cons by simp
    from "1.prems" Cons have "r = takeWhile is_num_char (c # rest) \<or> r \<in> set (findall_num (dropWhile is_num_char rest))"
      by (simp add: findall_num.simps [of s])
    then show ?thesis
    proof
      assume r: "r = takeWhile is_num_char (c # rest)"
      have "list_all is_num_char (takeWhile is_num_char (c # rest))"
        by (rule list_all_takeWhile)
      with r c show ?thesis by simp
    next
      assume "r \<in> set (findall_num (dropWhile is_num_char rest))"
      with "1.IH" [OF Cons] show ?thesis by simp
    qed
  qed
qed

lemma startswith_slash: "startswith h ''/'' \<longleftrightarrow> (\<exists>t. h = CHR ''/'' # t)"
  by (cases h) (auto simp: startswith_def)

lemma profile_url_of_eq:
  "profile_url_of l =
     (case str_or (tag_get l ''href'') (tag_get l ''data-href'') of
        None \<Rightarrow> None
      | Some h \<Rightarrow> if startswith h ''/'' then Some (''https://www.tango.me'' @ h) else Some h)"
  by (auto simp: profile_url_of_def Let_def startswith_def split: option.splits)

lemma extract_body_eq:
  "\<exists>n. 0 \<le> n \<and>
     extract_number (case find_el el viewers_crit of Some e \<Rightarrow> get_text e | None \<Rightarrow> ''0'') = Inr n \<and>
     extract_broadcaster_data now el =
       Inr (if username_kept el
            then Some \<lparr> username = strip (get_text (the (find_el el username_crit))),
                        viewers = n,
                        profile_image = (case find_el el (name_matches [''img'']) of
                                           Some e \<Rightarrow> tag_get e ''src'' | None \<Rightarrow> None),
                        title = (case find_el el title_crit of
                                   Some e \<Rightarrow> strip (get_text e) | None \<Rightarrow> []),
                        profile_url = map_option profile_url_of (find_link el),
                        timestamp = now,
                        is_live = True \<rparr>
            else None)"
proof -
  obtain n where n: "extract_number (case find_el el viewers_crit of Some e \<Rightarrow> get_text e | None \<Rightarrow> ''0'') = Inr n" "0 \<le> n"
    using extract_number_returns by blast
  show ?thesis
    using n
    by (auto simp: extract_broadcaster_data_def extract_broadcaster_data_body_def Let_def
        username_kept_def split: option.splits)
qed

lemma extract_cases:
  "(username_kept el \<and> (\<exists>d. extract_broadcaster_data now el = Inr (Some d))) \<or>
   (\<not> username_kept el \<and> extract_broadcaster_data now el = Inr None)"
  using extract_body_eq [of el now] by (cases "username_kept el") auto

lemma scan_loop_eq:
  "\<exists>bs. scan_loop clk k els acc = Inr (acc @ bs) \<and>
     list_all2 (\<lambda>ke d. extract_broadcaster_data (clk (fst ke)) (snd ke) = Inr (Some d))
       (filter (\<lambda>ke. username_kept (snd ke)) (enumerate k els)) bs"
proof (induction els arbitrary: k acc)
  case Nil
  show ?case by simp
next
  case (Cons el els)
  from extract_cases [of el "clk k"] show ?case
  proof (elim disjE conjE exE)
    fix d
    assume r: "username_kept el" and d: "extract_broadcaster_data (clk k) el = Inr (Some d)"
    from Cons.IH [of "Suc k" "acc @ [d]"] obtain bs where
      bs: "scan_loop clk (Suc k) els (acc @ [d]) = Inr ((acc @ [d]) @ bs)"
        "list_all2 (\<lambda>ke d. extract_broadcaster_data (clk (fst ke)) (snd ke) = Inr (Some d))
           (filter (\<lambda>ke. username_kept (snd ke)) (enumerate (Suc k) els)) bs"
      by blast
    show ?thesis
      by (rule exI [of _ "d # bs"]) (use r d bs in simp)
  next
    assume r: "\<not> username_kept el" and d: "extract_broadcaster_data (clk k) el = Inr None"
    from Cons.IH [of "Suc k" acc] obtain bs where
      bs: "scan_loop clk (Suc k) els acc = Inr (acc @ bs)"
        "list_all2 (\<lambda>ke d. extract_broadcaster_data (clk (fst ke)) (snd ke) = Inr (Some d))
           (filter (\<lambda>ke. username_kept (snd ke)) (enumerate (Suc k) els)) bs"
      by blast
    show ?thesis
      by (rule exI [of _ bs]) (use r d bs in simp)
  qed
qed

lemma length_filter_enumerate:
  "length (filter (\<lambda>ke. P (snd ke)) (enumerate k xs)) = length (filter P xs)"
  by (induction xs arbitrary: k) auto

text \<open>
  C1, as the claim states it, fails: in \<open>card_blank\<close> a username element is found,
  its stripped text is empty, and the extractor still returns a record, with the
  empty username.
\<close>

theorem blank_username_not_absent:
  "find_el card_blank username_crit = Some (Tag ''h3'' [(''class'', ''name'')] [Text ''  ''])
   \<and> strip (get_text (Tag ''h3'' [(''class'', ''name'')] [Text ''  ''])) = []
   \<and> extract_broadcaster_data ''T'' card_blank =
       Inr (Some \<lparr>username = [], viewers = 0, profile_image = None, title = [],
                   profile_url = None, timestamp = ''T'', is_live = True\<rparr>)"
  by code_simp

text \<open>
  C1, amended: \<open>_extract_broadcaster_data\<close> returns for every fragment, without an
  exception, and it returns \<open>None\<close> if and only if no element matches the
  username criteria or the stripped text of the first match is the sentinel
  \<open>"Unknown"\<close>.
\<close>

theorem extract_card_absent_iff:
  "(\<exists>r. extract_broadcaster_data now el = Inr r) \<and>
   (extract_broadcaster_data now el = Inr None \<longleftrightarrow>
      (case find_el el username_crit of
         None \<Rightarrow> True
       | Some e \<Rightarrow> strip (get_text e) = ''Unknown''))"
  using extract_body_eq [of el now]
  by (auto simp: username_kept_def split: option.splits if_splits)

text \<open>
  C6: when the extractor returns a record for a fragment in which a link element
  \<open>l\<close> was found, the record's \<open>profile_url\<close> is the href of \<open>l\<close> (its \<open>href\<close>
  attribute or else its \<open>data-href\<close> attribute) with \<open>https://www.tango.me\<close>
  put in front when the href begins with \<open>/\<close>, and the href unchanged otherwise.
\<close>

theorem profile_link_rewritten:
  assumes "extract_broadcaster_data now el = Inr (Some d)" and "find_link el = Some l"
  shows "profile_url d =
     Some (case str_or (tag_get l ''href'') (tag_get l ''data-href'') of
             None \<Rightarrow> None
           | Some h \<Rightarrow> if startswith h ''/'' then Some (''https://www.tango.me'' @ h) else Some h)"
proof -
  from extract_body_eq [of el now] assms(1)
  have "profile_url d = map_option profile_url_of (find_link el)"
    by (auto split: if_splits)
  with assms(2) show ?thesis
    by (simp add: profile_url_of_eq)
qed

text \<open>
  The link \<open>/alice\<close> of \<open>card_alice\<close> becomes \<open>https://www.tango.me/alice\<close>; the
  absolute link of \<open>card_bob\<close>, held in a \<open>data-href\<close> attribute, stays as it is.
\<close>

theorem profile_link_rewritten_witness:
  "extract_broadcaster_data ''T'' card_alice =
     Inr (Some \<lparr>username = ''alice'', viewers = 1200,
                 profile_image = Some ''https://cdn.example/a.png'', title = ''Hello'',
                 profile_url = Some (Some ''https://www.tango.me/alice''),
                 timestamp = ''T'', is_live = True\<rparr>)
   \<and> find_link card_alice = Some (Tag ''a'' [(''href'', ''/alice'')] [Text ''watch''])
   \<and> profile_url \<lparr>username = ''alice'', viewers = 1200,
                 profile_image = Some ''https://cdn.example/a.png'', title = ''Hello'',
                 profile_url = Some (Some ''https://www.tango.me/alice''),
                 timestamp = ''T'', is_live = True\<rparr> =
       Some (if startswith ''/alice'' ''/'' then Some (''https://www.tango.me'' @ ''/alice'')
             else Some ''/alice'')
   \<and> extract_broadcaster_data ''T'' card_bob =
     Inr (Some \<lparr>username = ''bob'', viewers = 0, profile_image = None, title = [],
                 profile_url = Some (Some ''https://example.org/bob''),
                 timestamp = ''T'', is_live = True\<rparr>)
   \<and> find_link card_bob = Some (Tag ''div'' [(''data-href'', ''https://example.org/bob'')] [])
   \<and> profile_url \<lparr>username = ''bob'', viewers = 0, profile_image = None, title = [],
                 profile_url = Some (Some ''https://example.org/bob''),
                 timestamp = ''T'', is_live = True\<rparr> =
       Some (if startswith ''https://example.org/bob'' ''/''
             then Some (''https://www.tango.me'' @ ''https://example.org/bob'')
             else Some ''https://example.org/bob'')"
proof -
  have a: "extract_broadcaster_data ''T'' card_alice =
     Inr (Some \<lparr>username = ''alice'', viewers = 1200,
                 profile_image = Some ''https://cdn.example/a.png'', title = ''Hello'',
                 profile_url = Some (Some ''https://www.tango.me/alice''),
                 timestamp = ''T'', is_live = True\<rparr>)"
    by code_simp
  have la: "find_link card_alice = Some (Tag ''a'' [(''href'', ''/alice'')] [Text ''watch''])"
    by code_simp
  have b: "extract_broadcaster_data ''T'' card_bob =
     Inr (Some \<lparr>username = ''bob'', viewers = 0, profile_image = None, title = [],
                 profile_url = Some (Some ''https://example.org/bob''),
                 timestamp = ''T'', is_live = True\<rparr>)"
    by code_simp
  have lb: "find_link card_bob = Some (Tag ''div'' [(''data-href'', ''https://example.org/bob'')] [])"
    by code_simp
  have ha: "str_or (tag_get (Tag ''a'' [(''href'', ''/alice'')] [Text ''watch'']) ''href'')
              (tag_get (Tag ''a'' [(''href'', ''/alice'')] [Text ''watch'']) ''data-href'') =
            Some ''/alice''"
    by (simp add: str_or_def)
  have hb: "str_or (tag_get (Tag ''div'' [(''data-href'', ''https://example.org/bob'')] []) ''href'')
              (tag_get (Tag ''div'' [(''data-href'', ''https://example.org/bob'')] []) ''data-href'') =
            Some ''https://example.org/bob''"
    by (simp add: str_or_def)
  have ua: "profile_url \<lparr>username = ''alice'', viewers = 1200,
                 profile_image = Some ''https://cdn.example/a.png'', title = ''Hello'',
                 profile_url = Some (Some ''https://www.tango.me/alice''),
                 timestamp = ''T'', is_live = True\<rparr> =
       Some (if startswith ''/alice'' ''/'' then Some (''https://www.tango.me'' @ ''/alice'')
             else Some ''/alice'')"
    using profile_link_rewritten [OF a la] unfolding ha by (simp only: option.case)
  have ub: "profile_url \<lparr>username = ''bob'', viewers = 0, profile_image = None, title = [],
                 profile_url = Some (Some ''https://example.org/bob''),
                 timestamp = ''T'', is_live = True\<rparr> =
       Some (if startswith ''https://example.org/bob'' ''/''
             then Some (''https://www.tango.me'' @ ''https://example.org/bob'')
             else Some ''https://example.org/bob'')"
    using profile_link_rewritten [OF b lb] unfolding hb by (simp only: option.case)
  show ?thesis
    by (rule conjI [OF a conjI [OF la conjI [OF ua conjI [OF b conjI [OF lb ub]]]]])
qed

text \<open>
  C3, as the claim states it, fails: of the two card fragments of
  \<open>blank_listing\<close> one has a username that is neither empty nor the sentinel, and
  the scan returns two records, the second with the empty username.
\<close>

theorem blank_card_is_returned:
  "fetch_soup (single_page_world blank_listing) ''https://www.tango.me/live/nearby'' = Inr blank_listing
   \<and> filter card_crit (descendants blank_listing) = [card_alice, card_blank]
   \<and> filter username_resolvable [card_alice, card_blank] = [card_alice]
   \<and> get_live_broadcasters (single_page_world blank_listing) = Inr
       [\<lparr>username = ''alice'', viewers = 1200,
          profile_image = Some ''https://cdn.example/a.png'', title = ''Hello'',
          profile_url = Some (Some ''https://www.tango.me/alice''),
          timestamp = ''T'', is_live = True\<rparr>,
        \<lparr>username = [], viewers = 0, profile_image = None, title = [],
          profile_url = None, timestamp = ''T+'', is_live = True\<rparr>]"
  by code_simp

text \<open>
  C3, amended: when the listing page is fetched and parsed,
  \<open>get_live_broadcasters\<close> returns a list whose length is the number of card
  fragments that pass the guard of the extractor (a username element is found and
  its stripped text, which may be empty, is not \<open>"Unknown"\<close>), and whose \<open>i\<close>-th
  record is what the extractor returns for the \<open>i\<close>-th such fragment in document
  order; the fragment at position \<open>k\<close> among all matched fragments is extracted
  at clock reading \<open>k\<close>.
\<close>

theorem scan_live_records:
  assumes "fetch_soup w ''https://www.tango.me/live/nearby'' = Inr soup"
  shows "\<exists>bs. get_live_broadcasters w = Inr bs \<and>
     length bs = length (filter username_kept (filter card_crit (descendants soup))) \<and>
     list_all2 (\<lambda>ke d. extract_broadcaster_data (clock w (fst ke)) (snd ke) = Inr (Some d))
       (filter (\<lambda>ke. username_kept (snd ke))
          (enumerate 0 (filter card_crit (descendants soup)))) bs"
proof -
  let ?cards = "filter card_crit (descendants soup)"
  from scan_loop_eq [of "clock w" 0 ?cards "[]"] obtain bs where
    bs: "scan_loop (clock w) 0 ?cards [] = Inr bs"
      "list_all2 (\<lambda>ke d. extract_broadcaster_data (clock w (fst ke)) (snd ke) = Inr (Some d))
         (filter (\<lambda>ke. username_kept (snd ke)) (enumerate 0 ?cards)) bs"
    by auto
  have "get_live_broadcasters w = Inr bs"
    using assms bs(1)
    by (simp add: get_live_broadcasters_def get_live_broadcasters_body_def find_all_def)
  moreover have "length bs = length (filter username_kept ?cards)"
    using list_all2_lengthD [OF bs(2)] by (simp add: length_filter_enumerate)
  ultimately show ?thesis
    using bs(2) by blast
qed

text \<open>
  The listing page of \<open>example_world\<close> has three card fragments; two of them pass
  the guard, and the scan returns their two records in page order.
\<close>

theorem scan_live_records_witness:
  "fetch_soup example_world ''https://www.tango.me/live/nearby'' = Inr listing_page
   \<and> filter card_crit (descendants listing_page) = [card_alice, card_anonymous, card_bob]
   \<and> filter username_kept [card_alice, card_anonymous, card_bob] = [card_alice, card_bob]
   \<and> (\<exists>bs. get_live_broadcasters example_world = Inr bs \<and> length bs = 2 \<and>
        map username bs = [''alice'', ''bob''])"
proof -
  have f: "fetch_soup example_world ''https://www.tango.me/live/nearby'' = Inr listing_page"
    by code_simp
  have c: "filter card_crit (descendants listing_page) = [card_alice, card_anonymous, card_bob]"
    by code_simp
  have r: "filter username_kept [card_alice, card_anonymous, card_bob] = [card_alice, card_bob]"
    by code_simp
  from scan_live_records [OF f] obtain bs where
    bs: "get_live_broadcasters example_world = Inr bs"
      "length bs = length (filter username_kept (filter card_crit (descendants listing_page)))"
    by blast
  have g: "get_live_broadcasters example_world = Inr
    [\<lparr>username = ''alice'', viewers = 1200, profile_image = Some ''https://cdn.example/a.png'',
       title = ''Hello'', profile_url = Some (Some ''https://www.tango.me/alice''),
       timestamp = ''T'', is_live = True\<rparr>,
     \<lparr>username = ''bob'', viewers = 0, profile_image = None, title = [],
       profile_url = Some (Some ''https://example.org/bob''), timestamp = ''T++'',
       is_live = True\<rparr>]"
    by code_simp
  from bs(1) g have "Inr bs = (Inr
    [\<lparr>username = ''alice'', viewers = 1200, profile_image = Some ''https://cdn.example/a.png'',
       title = ''Hello'', profile_url = Some (Some ''https://www.tango.me/alice''),
       timestamp = ''T'', is_live = True\<rparr>,
     \<lparr>username = ''bob'', viewers = 0, profile_image = None, title = [],
       profile_url = Some (Some ''https://example.org/bob''), timestamp = ''T++'',
       is_live = True\<rparr>] :: exn + broadcaster list)"
    by (rule trans [OF sym])
  then have bsv: "bs =
    [\<lparr>username = ''alice'', viewers = 1200, profile_image = Some ''https://cdn.example/a.png'',
       title = ''Hello'', profile_url = Some (Some ''https://www.tango.me/alice''),
       timestamp = ''T'', is_live = True\<rparr>,
     \<lparr>username = ''bob'', viewers = 0, profile_image = None, title = [],
       profile_url = Some (Some ''https://example.org/bob''), timestamp = ''T++'',
       is_live = True\<rparr>]"
    by (rule Inr_inject)
  have un: "map username bs = [''alice'', ''bob'']"
    unfolding bsv by simp
  from bs(2) have len: "length bs = 2"
    unfolding c r by simp
  have ex: "\<exists>bs. get_live_broadcasters example_world = Inr bs \<and> length bs = 2 \<and>
        map username bs = [''alice'', ''bob'']"
  proof (rule exI [of _ bs], intro conjI)
    show "get_live_broadcasters example_world = Inr bs" by (rule bs(1))
    show "length bs = 2" by (rule len)
    show "map username bs = [''alice'', ''bob'']" by (rule un)
  qed
  show ?thesis
    by (rule conjI [OF f conjI [OF c conjI [OF r ex]]])
qed

section \<open>Properties of the profile path\<close>

lemma stat_step_eq:
  "\<exists>n. 0 \<le> n \<and> extract_number (get_text stat) = Inr n \<and>
     stat_step pd stat =
       Inr (if str_in ''follower'' (lower (get_text stat)) then pd\<lparr>followers := n\<rparr>
            else if str_in ''following'' (lower (get_text stat)) then pd\<lparr>following := n\<rparr>
            else pd)"
proof -
  obtain n where n: "extract_number (get_text stat) = Inr n" "0 \<le> n"
    using extract_number_returns by blast
  then show ?thesis
    by (auto simp: stat_step_def Let_def)
qed

lemma stat_loop_keeps:
  "\<exists>pd'. stat_loop pd stats = Inr pd' \<and>
     p_username pd' = p_username pd \<and> total_streams pd' = total_streams pd \<and>
     bio pd' = bio pd \<and> p_profile_image pd' = p_profile_image pd \<and>
     is_verified pd' = is_verified pd \<and> last_seen pd' = last_seen pd \<and>
     p_timestamp pd' = p_timestamp pd"
proof (induction stats arbitrary: pd)
  case Nil
  show ?case by simp
next
  case (Cons stat stats)
  from stat_step_eq [of stat pd] obtain pd1 where
    s: "stat_step pd stat = Inr pd1" and
    k: "p_username pd1 = p_username pd" "total_streams pd1 = total_streams pd"
       "bio pd1 = bio pd" "p_profile_image pd1 = p_profile_image pd"
       "is_verified pd1 = is_verified pd" "last_seen pd1 = last_seen pd"
       "p_timestamp pd1 = p_timestamp pd"
    by (auto split: if_splits)
  from Cons.IH [of pd1] s k show ?case
    by auto
qed

lemma extract_profile_eq:
  "\<exists>pd1. stat_loop \<lparr> p_username = u, followers = 0, following = 0, total_streams = 0,
                         bio = [], p_profile_image = Some [], is_verified = False,
                         last_seen = [], p_timestamp = now \<rparr>
                      (find_all soup stat_crit) = Inr pd1 \<and>
     extract_profile soup u now =
       Inr (pd1\<lparr> bio := (case find_el soup bio_crit of
                            Some e \<Rightarrow> strip (get_text e) | None \<Rightarrow> bio pd1),
                  p_profile_image := (case find_el soup avatar_crit of
                            Some e \<Rightarrow> tag_get e ''src'' | None \<Rightarrow> p_profile_image pd1) \<rparr>)"
proof -
  let ?init = "\<lparr> p_username = u, followers = 0, following = 0, total_streams = 0,
                  bio = [], p_profile_image = Some [], is_verified = False,
                  last_seen = [], p_timestamp = now \<rparr>"
  from stat_loop_keeps [of ?init "find_all soup stat_crit"] obtain pd1 where
    "stat_loop ?init (find_all soup stat_crit) = Inr pd1"
    by blast
  then show ?thesis
    by (auto simp: extract_profile_def Let_def split: option.splits)
qed

lemma extract_profile_fields:
  "\<exists>p. extract_profile soup u now = Inr p \<and> p_username p = u \<and> total_streams p = 0 \<and>
     is_verified p = False \<and> last_seen p = [] \<and> p_timestamp p = now \<and>
     p_profile_image p = (case find_el soup avatar_crit of
                            Some e \<Rightarrow> tag_get e ''src'' | None \<Rightarrow> Some [])"
proof -
  let ?init = "\<lparr> p_username = u, followers = 0, following = 0, total_streams = 0,
                  bio = [], p_profile_image = Some [], is_verified = False,
                  last_seen = [], p_timestamp = now \<rparr>"
  from extract_profile_eq [of u now soup] obtain pd1 where
    l: "stat_loop ?init (find_all soup stat_crit) = Inr pd1" and
    e: "extract_profile soup u now =
       Inr (pd1\<lparr> bio := (case find_el soup bio_crit of
                            Some e \<Rightarrow> strip (get_text e) | None \<Rightarrow> bio pd1),
                  p_profile_image := (case find_el soup avatar_crit of
                            Some e \<Rightarrow> tag_get e ''src'' | None \<Rightarrow> p_profile_image pd1) \<rparr>)"
    by blast
  from stat_loop_keeps [of ?init "find_all soup stat_crit"] l
  have k: "p_username pd1 = u" "total_streams pd1 = 0" "is_verified pd1 = False"
    "last_seen pd1 = []" "p_timestamp pd1 = now" "p_profile_image pd1 = Some []"
    by auto
  show ?thesis
    unfolding e using k by (simp split: option.splits)
qed

lemma extract_number_normalize: "extract_number t = Inr (normalize t)"
  using extract_number_returns [of t] by (auto simp: normalize_def)

lemma stat_step_apply:
  "\<exists>pd'. stat_step pd stat = Inr pd' \<and>
     (followers pd', following pd') = apply_stat (followers pd, following pd) stat"
  by (simp add: stat_step_def Let_def extract_number_normalize apply_stat_def
      says_follower_def says_following_def)

lemma stat_loop_fold:
  "\<exists>pd'. stat_loop pd stats = Inr pd' \<and>
     (followers pd', following pd') = foldl apply_stat (followers pd, following pd) stats"
proof (induction stats arbitrary: pd)
  case Nil
  show ?case by simp
next
  case (Cons stat stats)
  from stat_step_apply [of pd stat] obtain pd1 where
    s: "stat_step pd stat = Inr pd1"
       "(followers pd1, following pd1) = apply_stat (followers pd, following pd) stat"
    by blast
  from Cons.IH [of pd1] obtain pd' where
    l: "stat_loop pd1 stats = Inr pd'"
       "(followers pd', following pd') = foldl apply_stat (followers pd1, following pd1) stats"
    by blast
  have "stat_loop pd (stat # stats) = Inr pd'"
    using s(1) l(1) by simp
  moreover have "(followers pd', following pd') =
      foldl apply_stat (followers pd, following pd) (stat # stats)"
    using l(2) s(2) by simp
  ultimately show ?case by blast
qed

lemma profile_stats_fold:
  assumes "fetch_soup w (''https://www.tango.me/'' @ u) = Inr soup"
  shows "\<exists>p. get_broadcaster_profile w u = Inr (Some p) \<and>
     (followers p, following p) = foldl apply_stat (0, 0) (filter stat_crit (descendants soup))"
proof -
  let ?init = "\<lparr> p_username = u, followers = 0, following = 0, total_streams = 0,
                  bio = [], p_profile_image = Some [], is_verified = False,
                  last_seen = [], p_timestamp = clock w 0 \<rparr>"
  let ?stats = "filter stat_crit (descendants soup)"
  from stat_loop_fold [of ?init ?stats] obtain pd1 where
    l: "stat_loop ?init ?stats = Inr pd1"
       "(followers pd1, following pd1) = foldl apply_stat (0, 0) ?stats"
    by auto
  define p where "p = (case find_el soup avatar_crit of
                         Some img_elem \<Rightarrow>
                           (case find_el soup bio_crit of
                              Some bio_elem \<Rightarrow> pd1\<lparr>bio := strip (get_text bio_elem)\<rparr>
                            | None \<Rightarrow> pd1)\<lparr>p_profile_image := tag_get img_elem ''src''\<rparr>
                       | None \<Rightarrow>
                           (case find_el soup bio_crit of
                              Some bio_elem \<Rightarrow> pd1\<lparr>bio := strip (get_text bio_elem)\<rparr>
                            | None \<Rightarrow> pd1))"
  have e: "extract_profile soup u (clock w 0) = Inr p"
    using l(1) by (simp add: extract_profile_def Let_def find_all_def p_def)
  have ff: "followers p = followers pd1" "following p = following pd1"
    by (simp_all add: p_def split: option.splits)
  have "get_broadcaster_profile w u = Inr (Some p)"
    using assms e by (simp add: get_broadcaster_profile_def get_broadcaster_profile_body_def)
  moreover have "(followers p, following p) = foldl apply_stat (0, 0) ?stats"
    using l(2) ff by simp
  ultimately show ?thesis by blast
qed

lemma foldl_apply_stat_last:
  "foldl apply_stat (fo, fg) stats =
     (if filter says_follower stats = [] then fo
      else normalize (get_text (last (filter says_follower stats))),
      if filter (\<lambda>s. says_following s \<and> \<not> says_follower s) stats = [] then fg
      else normalize (get_text (last (filter (\<lambda>s. says_following s \<and> \<not> says_follower s) stats))))"
proof (induction stats rule: rev_induct)
  case Nil
  show ?case by simp
next
  case (snoc s stats)
  then show ?case
    by (simp add: apply_stat_def)
qed

lemma apply_stat_both:
  "says_follower stat \<Longrightarrow> apply_stat ff stat = (normalize (get_text stat), snd ff)"
  by (simp add: apply_stat_def)

text \<open>
  C7, as the claim states it, fails: the only stat element of \<open>carol_page\<close> has a
  text that contains \<open>following\<close>, the number of that text is 10, and the profile
  returned has \<open>following = 0\<close>.
\<close>

theorem following_skipped_after_follower:
  "find_all carol_page stat_crit =
     [Tag ''div'' [(''class'', ''count'')] [Text ''10 followers, 20 following'']]
   \<and> str_in ''following'' (lower ''10 followers, 20 following'')
   \<and> extract_number ''10 followers, 20 following'' = Inr 10
   \<and> get_broadcaster_profile example_world ''carol'' =
     Inr (Some \<lparr>p_username = ''carol'', followers = 10, following = 0, total_streams = 0,
                 bio = [], p_profile_image = Some [], is_verified = False, last_seen = [],
                 p_timestamp = ''T''\<rparr>)"
  by code_simp

text \<open>
  C7, amended: when the profile page is fetched and parsed, a record is returned
  whose \<open>followers\<close> and \<open>following\<close> result from applying every stat element of
  the page, in document order, to the pair (0, 0): an element whose lower-cased
  text contains \<open>follower\<close> sets \<open>followers\<close>, an element whose lower-cased text
  contains \<open>following\<close> and not \<open>follower\<close> sets \<open>following\<close>, each to the
  number \<open>_extract_number\<close> returns for the element's original text, and any
  other element changes nothing. So \<open>followers\<close> is the number of the last
  element containing \<open>follower\<close>, \<open>following\<close> the number of the last element
  containing \<open>following\<close> and not \<open>follower\<close>, and each is 0 when there is no
  such element. On a page with the stats \<open>1.5K followers\<close> and \<open>300 following\<close>
  the profile has \<open>followers = 1500\<close> and \<open>following = 300\<close>.
\<close>

theorem stat_classification:
  assumes "fetch_soup w (''https://www.tango.me/'' @ u) = Inr soup"
  shows "(\<exists>p. get_broadcaster_profile w u = Inr (Some p) \<and>
      (followers p, following p) =
         foldl apply_stat (0, 0) (filter stat_crit (descendants soup)) \<and>
      followers p =
        (if filter says_follower (filter stat_crit (descendants soup)) = [] then 0
         else normalize (get_text (last
                (filter says_follower (filter stat_crit (descendants soup)))))) \<and>
      following p =
        (if filter (\<lambda>s. says_following s \<and> \<not> says_follower s)
              (filter stat_crit (descendants soup)) = [] then 0
         else normalize (get_text (last
                (filter (\<lambda>s. says_following s \<and> \<not> says_follower s)
                   (filter stat_crit (descendants soup)))))))
   \<and> extract_number (get_text stat) = Inr (normalize (get_text stat))
   \<and> apply_stat (fo, fg) stat =
       (if str_in ''follower'' (lower (get_text stat)) then (normalize (get_text stat), fg)
        else if str_in ''following'' (lower (get_text stat)) then (fo, normalize (get_text stat))
        else (fo, fg))
   \<and> get_broadcaster_profile example_world ''bob'' =
     Inr (Some \<lparr>p_username = ''bob'', followers = 1500, following = 300, total_streams = 0,
                 bio = ''hi there'', p_profile_image = Some ''https://cdn.example/bob.png'',
                 is_verified = False, last_seen = [], p_timestamp = ''T''\<rparr>)"
proof -
  let ?stats = "filter stat_crit (descendants soup)"
  from profile_stats_fold [OF assms] obtain p where
    p: "get_broadcaster_profile w u = Inr (Some p)"
       "(followers p, following p) = foldl apply_stat (0, 0) ?stats"
    by blast
  from p(2) have c: "followers p =
        (if filter says_follower ?stats = [] then 0
         else normalize (get_text (last (filter says_follower ?stats))))"
      "following p =
        (if filter (\<lambda>s. says_following s \<and> \<not> says_follower s) ?stats = [] then 0
         else normalize (get_text (last
                (filter (\<lambda>s. says_following s \<and> \<not> says_follower s) ?stats))))"
    unfolding foldl_apply_stat_last by simp_all
  have page: "\<exists>p. get_broadcaster_profile w u = Inr (Some p) \<and>
      (followers p, following p) = foldl apply_stat (0, 0) ?stats \<and>
      followers p =
        (if filter says_follower ?stats = [] then 0
         else normalize (get_text (last (filter says_follower ?stats)))) \<and>
      following p =
        (if filter (\<lambda>s. says_following s \<and> \<not> says_follower s) ?stats = [] then 0
         else normalize (get_text (last
                (filter (\<lambda>s. says_following s \<and> \<not> says_follower s) ?stats))))"
    using p c by blast
  have step: "apply_stat (fo, fg) stat =
       (if str_in ''follower'' (lower (get_text stat)) then (normalize (get_text stat), fg)
        else if str_in ''following'' (lower (get_text stat)) then (fo, normalize (get_text stat))
        else (fo, fg))"
    by (simp add: apply_stat_def says_follower_def says_following_def)
  have g: "get_broadcaster_profile example_world ''bob'' =
     Inr (Some \<lparr>p_username = ''bob'', followers = 1500, following = 300, total_streams = 0,
                 bio = ''hi there'', p_profile_image = Some ''https://cdn.example/bob.png'',
                 is_verified = False, last_seen = [], p_timestamp = ''T''\<rparr>)"
    by code_simp
  show ?thesis
    by (rule conjI [OF page conjI [OF extract_number_normalize conjI [OF step g]]])
qed

text \<open>
  The four stat elements of \<open>three_stats_page\<close>: the third overwrites the
  \<open>followers\<close> of the first, the fourth changes nothing.
\<close>

theorem stat_classification_witness:
  "fetch_soup (single_page_world three_stats_page) (''https://www.tango.me/'' @ ''zoe'') =
     Inr three_stats_page
   \<and> (\<exists>p. get_broadcaster_profile (single_page_world three_stats_page) ''zoe'' = Inr (Some p) \<and>
      (followers p, following p) =
         foldl apply_stat (0, 0) (filter stat_crit (descendants three_stats_page)) \<and>
      followers p =
        (if filter says_follower (filter stat_crit (descendants three_stats_page)) = [] then 0
         else normalize (get_text (last
                (filter says_follower (filter stat_crit (descendants three_stats_page)))))) \<and>
      following p =
        (if filter (\<lambda>s. says_following s \<and> \<not> says_follower s)
              (filter stat_crit (descendants three_stats_page)) = [] then 0
         else normalize (get_text (last
                (filter (\<lambda>s. says_following s \<and> \<not> says_follower s)
                   (filter stat_crit (descendants three_stats_page)))))))
   \<and> get_broadcaster_profile (single_page_world three_stats_page) ''zoe'' =
     Inr (Some \<lparr>p_username = ''zoe'', followers = 3000, following = 2, total_streams = 0,
                 bio = [], p_profile_image = Some [], is_verified = False, last_seen = [],
                 p_timestamp = ''T''\<rparr>)"
proof -
  have f: "fetch_soup (single_page_world three_stats_page) (''https://www.tango.me/'' @ ''zoe'') =
     Inr three_stats_page"
    by code_simp
  have g: "get_broadcaster_profile (single_page_world three_stats_page) ''zoe'' =
     Inr (Some \<lparr>p_username = ''zoe'', followers = 3000, following = 2, total_streams = 0,
                 bio = [], p_profile_image = Some [], is_verified = False, last_seen = [],
                 p_timestamp = ''T''\<rparr>)"
    by code_simp
  show ?thesis
    by (rule conjI [OF f conjI [OF stat_classification [OF f, THEN conjunct1] g]])
qed

text \<open>
  C8: the avatar image of \<open>dave_page\<close> matches the criteria and has no \<open>src\<close>
  attribute; the profile returned has \<open>None\<close> for \<open>profile_image\<close>, which is
  not a string.
\<close>

theorem avatar_without_src_gives_none:
  "find_el dave_page avatar_crit =
     Some (Tag ''img'' [(''class'', ''avatar''), (''data-src'', ''https://cdn.example/dave.png'')] [])
   \<and> tag_get (Tag ''img'' [(''class'', ''avatar''), (''data-src'', ''https://cdn.example/dave.png'')] [])
        ''src'' = None
   \<and> get_broadcaster_profile example_world ''dave'' =
     Inr (Some \<lparr>p_username = ''dave'', followers = 0, following = 0, total_streams = 0,
                 bio = [], p_profile_image = None, is_verified = False, last_seen = [],
                 p_timestamp = ''T''\<rparr>)"
  by code_simp

text \<open>
  C9: when the profile page is fetched and parsed, \<open>get_broadcaster_profile\<close>
  returns a record, and in it \<open>is_verified\<close> is \<open>False\<close> and \<open>last_seen\<close> is the
  empty string.
\<close>

theorem profile_placeholders_never_set:
  assumes "fetch_soup w (''https://www.tango.me/'' @ u) = Inr soup"
  shows "\<exists>p. get_broadcaster_profile w u = Inr (Some p) \<and>
               is_verified p = False \<and> last_seen p = []"
proof -
  from extract_profile_fields [of soup u "clock w 0"] obtain p where
    p: "extract_profile soup u (clock w 0) = Inr p" "is_verified p = False" "last_seen p = []"
    by blast
  have "get_broadcaster_profile w u = Inr (Some p)"
    using assms p(1) by (simp add: get_broadcaster_profile_def get_broadcaster_profile_body_def)
  with p(2,3) show ?thesis by blast
qed

theorem profile_placeholders_never_set_witness:
  "fetch_soup example_world (''https://www.tango.me/'' @ ''bob'') = Inr bob_page
   \<and> (\<exists>p. get_broadcaster_profile example_world ''bob'' = Inr (Some p) \<and>
            is_verified p = False \<and> last_seen p = [])"
proof -
  have f: "fetch_soup example_world (''https://www.tango.me/'' @ ''bob'') = Inr bob_page"
    by code_simp
  show ?thesis
    by (rule conjI [OF f profile_placeholders_never_set [OF f]])
qed

text \<open>
  C10: when the profile page is fetched and parsed and one of its stat elements has
  a lower-cased text containing both \<open>follower\<close> and \<open>following\<close>, that element
  sets \<open>followers\<close> to the number of its text and leaves \<open>following\<close> as the
  elements before it left it; the elements after it go on from there. In the
  loop this is one round that updates \<open>followers\<close> only.
\<close>

theorem both_substrings_only_followers:
  assumes "fetch_soup w (''https://www.tango.me/'' @ u) = Inr soup"
    and "filter stat_crit (descendants soup) = pre @ stat # post"
    and "str_in ''follower'' (lower (get_text stat))"
    and "str_in ''following'' (lower (get_text stat))"
  shows "(\<exists>p. get_broadcaster_profile w u = Inr (Some p) \<and>
      (followers p, following p) =
         foldl apply_stat (normalize (get_text stat), snd (foldl apply_stat (0, 0) pre)) post)
   \<and> (\<exists>pd'. stat_step pd stat = Inr pd' \<and>
         pd' = pd\<lparr>followers := normalize (get_text stat)\<rparr> \<and>
         following pd' = following pd)
   \<and> extract_number (get_text stat) = Inr (normalize (get_text stat))"
proof -
  have sf: "says_follower stat"
    using assms(3) by (simp add: says_follower_def)
  from profile_stats_fold [OF assms(1)] obtain p where
    p: "get_broadcaster_profile w u = Inr (Some p)"
       "(followers p, following p) = foldl apply_stat (0, 0) (filter stat_crit (descendants soup))"
    by blast
  have "foldl apply_stat (0, 0) (pre @ stat # post) =
      foldl apply_stat (normalize (get_text stat), snd (foldl apply_stat (0, 0) pre)) post"
    by (simp add: apply_stat_both [OF sf])
  with p(2) assms(2) have "(followers p, following p) =
      foldl apply_stat (normalize (get_text stat), snd (foldl apply_stat (0, 0) pre)) post"
    by simp
  with p(1) have page: "\<exists>p. get_broadcaster_profile w u = Inr (Some p) \<and>
      (followers p, following p) =
         foldl apply_stat (normalize (get_text stat), snd (foldl apply_stat (0, 0) pre)) post"
    by blast
  have step: "\<exists>pd'. stat_step pd stat = Inr pd' \<and>
         pd' = pd\<lparr>followers := normalize (get_text stat)\<rparr> \<and>
         following pd' = following pd"
    using assms(3) by (simp add: stat_step_def Let_def extract_number_normalize)
  show ?thesis
    by (rule conjI [OF page conjI [OF step extract_number_normalize]])
qed

text \<open>
  On \<open>overlap_page\<close> the first stat element sets \<open>following\<close> to 3, and the
  second, with both substrings, sets \<open>followers\<close> to 5 and leaves the 3.
\<close>

theorem both_substrings_only_followers_witness:
  "fetch_soup (single_page_world overlap_page) (''https://www.tango.me/'' @ ''zoe'') = Inr overlap_page
   \<and> filter stat_crit (descendants overlap_page) =
       [Tag ''span'' [(''class'', ''stat'')] [Text ''3 following'']] @
       Tag ''div'' [(''class'', ''stat'')] [Text ''Followers 5 / Following 8''] # []
   \<and> str_in ''follower'' (lower (get_text (Tag ''div'' [(''class'', ''stat'')] [Text ''Followers 5 / Following 8''])))
   \<and> str_in ''following'' (lower (get_text (Tag ''div'' [(''class'', ''stat'')] [Text ''Followers 5 / Following 8''])))
   \<and> (\<exists>p. get_broadcaster_profile (single_page_world overlap_page) ''zoe'' = Inr (Some p) \<and>
      (followers p, following p) =
         foldl apply_stat
           (normalize (get_text (Tag ''div'' [(''class'', ''stat'')] [Text ''Followers 5 / Following 8''])),
            snd (foldl apply_stat (0, 0) [Tag ''span'' [(''class'', ''stat'')] [Text ''3 following'']])) [])
   \<and> get_broadcaster_profile (single_page_world overlap_page) ''zoe'' =
     Inr (Some \<lparr>p_username = ''zoe'', followers = 5, following = 3, total_streams = 0,
                 bio = [], p_profile_image = Some [], is_verified = False, last_seen = [],
                 p_timestamp = ''T''\<rparr>)"
proof -
  have f: "fetch_soup (single_page_world overlap_page) (''https://www.tango.me/'' @ ''zoe'') = Inr overlap_page"
    by code_simp
  have d: "filter stat_crit (descendants overlap_page) =
       [Tag ''span'' [(''class'', ''stat'')] [Text ''3 following'']] @
       Tag ''div'' [(''class'', ''stat'')] [Text ''Followers 5 / Following 8''] # []"
    by code_simp
  have a: "str_in ''follower'' (lower (get_text (Tag ''div'' [(''class'', ''stat'')] [Text ''Followers 5 / Following 8''])))"
    by code_simp
  have b: "str_in ''following'' (lower (get_text (Tag ''div'' [(''class'', ''stat'')] [Text ''Followers 5 / Following 8''])))"
    by code_simp
  have g: "get_broadcaster_profile (single_page_world overlap_page) ''zoe'' =
     Inr (Some \<lparr>p_username = ''zoe'', followers = 5, following = 3, total_streams = 0,
                 bio = [], p_profile_image = Some [], is_verified = False, last_seen = [],
                 p_timestamp = ''T''\<rparr>)"
    by code_simp
  show ?thesis
    by (rule conjI [OF f conjI [OF d conjI [OF a conjI [OF b
          conjI [OF both_substrings_only_followers [OF f d a b, THEN conjunct1] g]]]]])
qed

section \<open>Properties of the scanners\<close>

text \<open>
  Fetching fails in three ways: the request raises, the status is an error status,
  or the parser raises.
\<close>

lemma fetch_soup_failure:
  "fetch_soup w url = Inl e \<longleftrightarrow>
     (case session_get w url of
        Inl e' \<Rightarrow> e' = e
      | Inr r \<Rightarrow>
          if 400 \<le> status_code r \<and> status_code r < 600 then e = HTTPError
          else html_parser w (resp_text r) = Inl e)"
  by (auto simp: fetch_soup_def raise_for_status_def split: sum.splits)

text \<open>
  C2: \<open>get_live_broadcasters\<close> and \<open>get_broadcaster_profile\<close> return for every
  site, parser, clock and username, without an exception; when fetching or parsing
  the page fails, the first returns the empty list and the second \<open>None\<close>.
\<close>

theorem scans_never_raise:
  "(\<exists>bs. get_live_broadcasters w = Inr bs) \<and>
   (\<exists>r. get_broadcaster_profile w u = Inr r) \<and>
   (fetch_soup w ''https://www.tango.me/live/nearby'' = Inl e \<longrightarrow>
      get_live_broadcasters w = Inr []) \<and>
   (fetch_soup w (''https://www.tango.me/'' @ u) = Inl e' \<longrightarrow>
      get_broadcaster_profile w u = Inr None)"
  by (auto simp: get_live_broadcasters_def get_live_broadcasters_body_def
      get_broadcaster_profile_def get_broadcaster_profile_body_def split: sum.splits)

text \<open>
  A site that cannot be reached, a profile answered with status 404, and a page
  the parser rejects.
\<close>

theorem scans_never_raise_witness:
  "fetch_soup offline_world ''https://www.tango.me/live/nearby'' = Inl RequestException
   \<and> get_live_broadcasters offline_world = Inr []
   \<and> fetch_soup example_world (''https://www.tango.me/'' @ ''erin'') = Inl HTTPError
   \<and> get_broadcaster_profile example_world ''erin'' = Inr None
   \<and> fetch_soup example_world (''https://www.tango.me/'' @ ''mallory'') = Inl ParserRejectedMarkup
   \<and> get_broadcaster_profile example_world ''mallory'' = Inr None"
proof -
  have f1: "fetch_soup offline_world ''https://www.tango.me/live/nearby'' = Inl RequestException"
    by code_simp
  have f2: "fetch_soup example_world (''https://www.tango.me/'' @ ''erin'') = Inl HTTPError"
    by code_simp
  have f3: "fetch_soup example_world (''https://www.tango.me/'' @ ''mallory'') = Inl ParserRejectedMarkup"
    by code_simp
  have g1: "get_live_broadcasters offline_world = Inr []"
    by (rule scans_never_raise [THEN conjunct2, THEN conjunct2, THEN conjunct1, THEN mp, OF f1])
  have g2: "get_broadcaster_profile example_world ''erin'' = Inr None"
    by (rule scans_never_raise [THEN conjunct2, THEN conjunct2, THEN conjunct2, THEN mp, OF f2])
  have g3: "get_broadcaster_profile example_world ''mallory'' = Inr None"
    by (rule scans_never_raise [THEN conjunct2, THEN conjunct2, THEN conjunct2, THEN mp, OF f3])
  show ?thesis
    by (rule conjI [OF f1 conjI [OF g1 conjI [OF f2 conjI [OF g2 conjI [OF f3 g3]]]]])
qed

end
